theory Spec2Isabelle
  imports Complex_Main "HOL-Library.Sublist"
begin

section \<open>The LLM gateway of \<^verbatim>\<open>src/app/api/llm/route.ts\<close>\<close>

text \<open>
  The route handler \<^verbatim>\<open>POST\<close> reads a JSON body, validates it, selects one of three
  provider adapters and returns the adapter's result. The embedding below follows the
  source function by function. Values that arrive from outside (the request body, the
  parsed provider replies) are untyped at run time whatever the TypeScript annotations
  say, so they are modelled as JavaScript values. Effects are explicit: every function
  that reads \<^verbatim>\<open>process.env\<close> or calls a provider returns, beside its result, the list of
  the effects it performed, in order.
\<close>

subsection \<open>JavaScript values\<close>

text \<open>
  A number is a finite double, given by the real it denotes, or one of the two infinities
  (\<^verbatim>\<open>JSON.parse\<close> yields \<^verbatim>\<open>Infinity\<close> for a literal such as \<^verbatim>\<open>1e400\<close>). \<^verbatim>\<open>NaN\<close> does not
  occur: \<^verbatim>\<open>JSON.parse\<close> never yields it and the program does no arithmetic; it only tests
  numbers for truthiness and passes them on. A string is the list of the bytes of its
  UTF-8 encoding. An object is the association list of its own properties; the first
  binding of a key is the property.
\<close>

datatype number = Finite real | PosInfinity | NegInfinity

datatype jsval =
    Undefined
  | Null
  | Bool bool
  | Num number
  | Str string
  | Arr "jsval list"
  | Obj "(string \<times> jsval) list"

text \<open>JavaScript's ToBoolean, as applied by \<^verbatim>\<open>!x\<close>, \<^verbatim>\<open>if (x)\<close> and \<^verbatim>\<open>x || y\<close>.\<close>

fun truthy :: "jsval \<Rightarrow> bool" where
  "truthy Undefined = False"
| "truthy Null = False"
| "truthy (Bool b) = b"
| "truthy (Num n) = (n \<noteq> Finite 0)"
| "truthy (Str s) = (s \<noteq> [])"
| "truthy (Arr xs) = True"
| "truthy (Obj kvs) = True"

text \<open>\<^verbatim>\<open>a || b\<close>\<close>

definition or_else :: "jsval \<Rightarrow> jsval \<Rightarrow> jsval" where
  "or_else a b = (if truthy a then a else b)"

text \<open>
  A thrown value. \<^verbatim>\<open>Error m\<close> is an \<^verbatim>\<open>Error\<close> object whose message is \<^verbatim>\<open>m\<close>;
  \<^verbatim>\<open>TypeError v k\<close> is the error the engine throws when property \<^verbatim>\<open>k\<close> is read from
  \<^verbatim>\<open>v\<close> and \<^verbatim>\<open>v\<close> is \<^verbatim>\<open>null\<close> or \<^verbatim>\<open>undefined\<close>.
\<close>

datatype exn = Error string | TypeError jsval string

text \<open>
  \<^verbatim>\<open>v.k\<close> for the property names this program reads (none of them is a property of a
  boolean, a number, a string or an array).
\<close>

fun get :: "jsval \<Rightarrow> string \<Rightarrow> exn + jsval" where
  "get Undefined k = Inl (TypeError Undefined k)"
| "get Null k = Inl (TypeError Null k)"
| "get (Obj kvs) k = Inr (case map_of kvs k of None \<Rightarrow> Undefined | Some v \<Rightarrow> v)"
| "get v k = Inr Undefined"

text \<open>\<^verbatim>\<open>v[0]\<close>\<close>

fun at0 :: "jsval \<Rightarrow> exn + jsval" where
  "at0 Undefined = Inl (TypeError Undefined ''0'')"
| "at0 Null = Inl (TypeError Null ''0'')"
| "at0 (Arr xs) = Inr (case xs of [] \<Rightarrow> Undefined | x # _ \<Rightarrow> x)"
| "at0 (Str s) = Inr (case s of [] \<Rightarrow> Undefined | c # _ \<Rightarrow> Str [c])"
| "at0 (Obj kvs) = Inr (case map_of kvs ''0'' of None \<Rightarrow> Undefined | Some v \<Rightarrow> v)"
| "at0 v = Inr Undefined"

text \<open>Optional chaining: \<^verbatim>\<open>v?.k\<close> and \<^verbatim>\<open>v?.[0]\<close> are \<^verbatim>\<open>undefined\<close> where the plain read throws.\<close>

definition opt_prop :: "jsval \<Rightarrow> string \<Rightarrow> jsval" where
  "opt_prop v k = (case get v k of Inl e \<Rightarrow> Undefined | Inr x \<Rightarrow> x)"

definition opt_at0 :: "jsval \<Rightarrow> jsval" where
  "opt_at0 v = (case at0 v of Inl e \<Rightarrow> Undefined | Inr x \<Rightarrow> x)"

text \<open>
  \<^verbatim>\<open>JSON.stringify(v)\<close>, given as the JSON document it writes (the value that text
  denotes) rather than as text: a number that is not finite is written \<^verbatim>\<open>null\<close>, a property
  whose value is \<^verbatim>\<open>undefined\<close> is left out, an array element that is \<^verbatim>\<open>undefined\<close> is
  written \<^verbatim>\<open>null\<close>, and everything else is written as it is. (The objects serialised here
  are built by the handler with distinct keys.)
\<close>

fun JSON_stringify :: "jsval \<Rightarrow> jsval" where
  "JSON_stringify (Num n) = (case n of Finite r \<Rightarrow> Num n | PosInfinity \<Rightarrow> Null | NegInfinity \<Rightarrow> Null)"
| "JSON_stringify (Arr xs) =
     Arr (map (\<lambda>x. if x = Undefined then Null else JSON_stringify x) xs)"
| "JSON_stringify (Obj kvs) =
     Obj (map (\<lambda>(k, v). (k, JSON_stringify v)) (filter (\<lambda>(k, v). v \<noteq> Undefined) kvs))"
| "JSON_stringify v = v"

text \<open>Sequencing of computations that may throw.\<close>

definition seq :: "exn + 'a \<Rightarrow> ('a \<Rightarrow> exn + 'b) \<Rightarrow> exn + 'b" where
  "seq m f = (case m of Inl e \<Rightarrow> Inl e | Inr x \<Rightarrow> f x)"

subsection \<open>The world outside the handler\<close>

text \<open>
  An outbound provider call: the Gemini client's \<^verbatim>\<open>generateContent\<close> (with the API key the
  client was built from and the argument object), or a \<^verbatim>\<open>fetch\<close> (URL, method, headers,
  and the body, the JSON document that \<^verbatim>\<open>JSON.stringify\<close> wrote).
\<close>

datatype outbound =
    GenerateContent string jsval
  | Fetch string string "(string \<times> string) list" jsval

datatype event = EnvRead string | Call outbound

text \<open>What the handler sees of a \<^verbatim>\<open>fetch\<close> response: its \<^verbatim>\<open>ok\<close> flag and the outcome of
  \<^verbatim>\<open>await response.json()\<close>.\<close>

record response =
  ok :: bool
  json :: "exn + jsval"

text \<open>
  \<^verbatim>\<open>env\<close> is \<^verbatim>\<open>process.env\<close>. \<^verbatim>\<open>generateContent\<close> either rejects or resolves with a response
  whose \<^verbatim>\<open>text\<close> accessor yields the given value; \<^verbatim>\<open>fetch\<close> either rejects or resolves with
  a response. \<^verbatim>\<open>to_string\<close> is the engine's ToString on values that are not strings and
  \<^verbatim>\<open>type_error_message\<close> the engine's wording of a TypeError; both are parameters.
\<close>

record world =
  env :: "string \<Rightarrow> string option"
  generateContent :: "string \<Rightarrow> jsval \<Rightarrow> exn + jsval"
  fetch :: "string \<Rightarrow> string \<Rightarrow> (string \<times> string) list \<Rightarrow> jsval \<Rightarrow> exn + response"
  to_string :: "jsval \<Rightarrow> string"
  type_error_message :: "jsval \<Rightarrow> string \<Rightarrow> string"

text \<open>\<^verbatim>\<open>(error as Error).message\<close>\<close>

fun message :: "world \<Rightarrow> exn \<Rightarrow> string" where
  "message w (Error m) = m"
| "message w (TypeError v k) = type_error_message w v k"

text \<open>A value spliced into a template literal, or given to \<^verbatim>\<open>new Error\<close> as its message.\<close>

fun interpolate :: "world \<Rightarrow> jsval \<Rightarrow> string" where
  "interpolate w (Str s) = s"
| "interpolate w v = to_string w v"

subsection \<open>Provider configuration\<close>

datatype LLMProvider = gemini | openai | claude

record config =
  modelName :: string
  maxTokens :: nat

fun LLM_CONFIG :: "LLMProvider \<Rightarrow> config" where
  "LLM_CONFIG gemini = \<lparr>modelName = ''gemini-2.0-flash'', maxTokens = 8192\<rparr>"
| "LLM_CONFIG openai = \<lparr>modelName = ''gpt-3.5-turbo'', maxTokens = 4096\<rparr>"
| "LLM_CONFIG claude = \<lparr>modelName = ''claude-3-haiku-20240307'', maxTokens = 4096\<rparr>"

text \<open>\<^verbatim>\<open>interface LLMResponse\<close>; \<^verbatim>\<open>text'\<close> is the field \<^verbatim>\<open>text\<close>.\<close>

record LLMResponse =
  text' :: jsval
  model :: string
  error :: "string option"

subsection \<open>Prompt builders\<close>

text \<open>The fixed text of the three templates, cut into named pieces.\<close>

definition gemini_intro :: string where
  \<comment> \<open>route.ts lines 120-122: the template up to the interpolated prompt\<close>
  "gemini_intro =
     ''\<newline>'' @
     ''You are a professional journal analyzer. Analyze the following journal entries and provide both advanced visual and textual insights:\<newline>'' @
     ''\<newline>''"

definition gemini_analyses :: string where
  \<comment> \<open>route.ts lines 123-159: the numbered analyses after the prompt\<close>
  "gemini_analyses =
     ''\<newline>'' @
     ''\<newline>'' @
     ''Please provide the following analysis:\<newline>'' @
     ''\<newline>'' @
     ''// --- Visual Analysis (as before) ---\<newline>'' @
     ''1. Extract keywords for a word cloud (array of strings, most important first)\<newline>'' @
     ''2. For each entry, estimate energy (1-10) and productivity (1-10)\<newline>'' @
     ''3. List top mood influencers (array of {influencer, impact})\<newline>'' @
     ''4. For each entry, estimate emotion distribution (object with keys: joy, sadness, anger, fear, surprise, disgust, values 0-1)\<newline>'' @
     ''5. List topic hierarchy (array of strings, most important first)\<newline>'' @
     ''6. Flow data showing relationships between emotions and factors:\<newline>'' @
     ''   - Extract positive and negative emotions\<newline>'' @
     ''   - Identify external and internal factors\<newline>'' @
     ''   - Create nodes for each emotion and factor\<newline>'' @
     ''   - Create edges showing relationships between factors and emotions\<newline>'' @
     ''7. For each entry, estimate health metrics: sentiment (0-100), physicalWellness (0-100), mentalResilience (0-100)\<newline>'' @
     ''8. Progress metrics (object: health, resilience, academic, research, 0-100)\<newline>'' @
     ''9. Analyze the overall journal for:\<newline>'' @
     ''   a. Happiness sources (array of {source, strength, moments, quote, color})\<newline>'' @
     ''   b. Tense usage (object: present, past, future, each as percentage)\<newline>'' @
     ''   c. Word choice categories (array of {category, percentage})\<newline>'' @
     ''10. Provide a brief, actionable insight (2-3 sentences) summarizing the user's health and wellness trends, strengths, and areas for improvement, based on the metrics above.\<newline>'' @
     ''\<newline>'' @
     ''// --- Textual Analysis ---\<newline>'' @
     ''11. Emotional Triggers: Link mood shifts to specific events and note stressors (e.g., Holi celebration '' @ [CHR 0xE2, CHR 0x86, CHR 0x92] @ '' \"joy\" in late March, \"adjusting\" in early March).\<newline>'' @
     ''12. Energy-Level Tracking: For each time block in the daily rhythm, rate energy/mood (1'' @ [CHR 0xE2, CHR 0x80, CHR 0x93] @ ''5 scale) and note correlations (e.g., late-night creativity and energy/burnout).\<newline>'' @
     ''13. Goal Progress Metrics: Track mentions of goals and document milestones or setbacks.\<newline>'' @
     ''14. Social Interaction Impact: Analyze how family/professional interactions affect mood.\<newline>'' @
     ''15. Sleep & Rest Analysis: Monitor sleep duration/quality and its correlation with productivity.\<newline>'' @
     ''16. Creative Output Log: Record creative work output during late-night sessions.\<newline>'' @
     ''17. Stress Indicators: Flag stress-related terms and contextualize with events.\<newline>'' @
     ''18. Gratitude Tracking: Highlight moments of gratitude to assess positivity trends.\<newline>'' @
     ''19. Vocabulary Shifts Over Time: Summarize shifts in language and provide an insight about the progression (see example below).\<newline>'' @
     ''20. Major Milestones: List key achievements and provide an insight about their holistic impact (see example below).\<newline>'' @
     ''21. Daily Rhythm Patterns: Summarize productive work, self-care, creative exploration, and opportunities for growth (see example below).\<newline>'' @
     ''22. For each of the above, provide structured data for tables/lists and a brief insight/summary as shown in the reference images.\<newline>'' @
     ''\<newline>''"

definition gemini_format_directive :: string where
  \<comment> \<open>route.ts line 160\<close>
  "gemini_format_directive =
     ''Format your response as JSON with the following structure:\<newline>''"

definition gemini_json_shape :: string where
  \<comment> \<open>route.ts lines 161-240: the literal example of the JSON shape\<close>
  "gemini_json_shape =
     ''{\<newline>'' @
     ''  \"keywords\": string[],\<newline>'' @
     ''  \"metrics\": {\"energy\": number, \"productivity\": number}[],\<newline>'' @
     ''  \"moodInfluencers\": {\"influencer\": string, \"impact\": number}[],\<newline>'' @
     ''  \"emotionDistribution\": Record<string, number>[],\<newline>'' @
     ''  \"topicHierarchy\": string[],\<newline>'' @
     ''  \"flowData\": {\<newline>'' @
     ''    \"nodes\": [\<newline>'' @
     ''      {\<newline>'' @
     ''        \"id\": string,\<newline>'' @
     ''        \"label\": string,\<newline>'' @
     ''        \"type\": \"emotion\" | \"factor\",\<newline>'' @
     ''        \"data\": {\<newline>'' @
     ''          \"category\": \"positive\" | \"negative\" | \"external\" | \"internal\"\<newline>'' @
     ''        }\<newline>'' @
     ''      }\<newline>'' @
     ''    ],\<newline>'' @
     ''    \"edges\": [\<newline>'' @
     ''      {\<newline>'' @
     ''        \"id\": string,\<newline>'' @
     ''        \"source\": string,\<newline>'' @
     ''        \"target\": string,\<newline>'' @
     ''        \"label\": string\<newline>'' @
     ''      }\<newline>'' @
     ''    ]\<newline>'' @
     ''  },\<newline>'' @
     ''  \"healthMetrics\": {\"sentiment\": number, \"physicalWellness\": number, \"mentalResilience\": number}[],\<newline>'' @
     ''  \"progressMetrics\": {\"health\": number, \"resilience\": number, \"academic\": number, \"research\": number},\<newline>'' @
     ''  \"happinessSources\": [\<newline>'' @
     ''    {\"source\": string, \"strength\": number, \"moments\": string[], \"quote\": string, \"color\": string}\<newline>'' @
     ''  ],\<newline>'' @
     ''  \"tenseUsage\": {\"present\": number, \"past\": number, \"future\": number},\<newline>'' @
     ''  \"wordChoiceCategories\": [\<newline>'' @
     ''    {\"category\": string, \"percentage\": number}\<newline>'' @
     ''  ],\<newline>'' @
     ''  \"healthWellnessInsight\": string,\<newline>'' @
     ''  // --- Textual Analysis ---\<newline>'' @
     ''  \"emotionalTriggers\": [\<newline>'' @
     ''    { \"event\": string, \"mood\": string, \"timeframe\": string, \"note\": string }\<newline>'' @
     ''  ],\<newline>'' @
     ''  \"energyLevelTracking\": [\<newline>'' @
     ''    { \"timeBlock\": string, \"energy\": number, \"mood\": string, \"correlation\": string }\<newline>'' @
     ''  ],\<newline>'' @
     ''  \"goalProgressMetrics\": [\<newline>'' @
     ''    { \"goal\": string, \"status\": string, \"milestone\": string, \"setback\": string }\<newline>'' @
     ''  ],\<newline>'' @
     ''  \"socialInteractionImpact\": [\<newline>'' @
     ''    { \"interaction\": string, \"moodImpact\": string, \"note\": string }\<newline>'' @
     ''  ],\<newline>'' @
     ''  \"sleepRestAnalysis\": [\<newline>'' @
     ''    { \"date\": string, \"duration\": string, \"quality\": string, \"productivityCorrelation\": string }\<newline>'' @
     ''  ],\<newline>'' @
     ''  \"creativeOutputLog\": [\<newline>'' @
     ''    { \"date\": string, \"output\": string, \"timeBlock\": string }\<newline>'' @
     ''  ],\<newline>'' @
     ''  \"stressIndicators\": [\<newline>'' @
     ''    { \"term\": string, \"context\": string, \"event\": string }\<newline>'' @
     ''  ],\<newline>'' @
     ''  \"gratitudeTracking\": [\<newline>'' @
     ''    { \"moment\": string, \"positivityTrend\": string }\<newline>'' @
     ''  ],\<newline>'' @
     ''  \"vocabularyShifts\": {\<newline>'' @
     ''    \"phases\": [\<newline>'' @
     ''      { \"phase\": string, \"words\": string[], \"mood\": string }\<newline>'' @
     ''    ],\<newline>'' @
     ''    \"insight\": string\<newline>'' @
     ''  },\<newline>'' @
     ''  \"majorMilestones\": {\<newline>'' @
     ''    \"milestones\": [\<newline>'' @
     ''      { \"date\": string, \"title\": string, \"description\": string, \"insight\": string }\<newline>'' @
     ''    ],\<newline>'' @
     ''    \"insight\": string\<newline>'' @
     ''  },\<newline>'' @
     ''  \"dailyRhythmPatterns\": {\<newline>'' @
     ''    \"blocks\": [\<newline>'' @
     ''      { \"block\": string, \"activities\": string[], \"note\": string }\<newline>'' @
     ''    ],\<newline>'' @
     ''    \"insight\": string\<newline>'' @
     ''  }\<newline>'' @
     ''}''"

definition gemini_closing :: string where
  \<comment> \<open>route.ts lines 240-242: the closing directive and the final line break\<close>
  "gemini_closing =
     ''\<newline>'' @
     ''Return ONLY valid JSON.\<newline>''"

definition openai_intro :: string where
  \<comment> \<open>route.ts lines 304-306\<close>
  "openai_intro =
     ''\<newline>'' @
     ''Analyze the following journal entries and provide detailed insights:\<newline>'' @
     ''\<newline>''"

definition openai_analyses :: string where
  \<comment> \<open>route.ts lines 307-315\<close>
  "openai_analyses =
     ''\<newline>'' @
     ''\<newline>'' @
     ''Please provide the following analysis as a JSON object:\<newline>'' @
     ''1. Overall sentiment analysis (include a score from -10 to +10)\<newline>'' @
     ''2. Key topics discussed with their frequency and context\<newline>'' @
     ''3. Patterns and trends identified with their significance\<newline>'' @
     ''4. Personalized insights based on the entries\<newline>'' @
     ''5. Actionable suggestions for the journal writer\<newline>''"

definition claude_intro :: string where
  \<comment> \<open>route.ts lines 399-401\<close>
  "claude_intro =
     ''\<newline>'' @
     ''Analyze the following journal entries and provide comprehensive insights:\<newline>'' @
     ''\<newline>''"

definition claude_analyses :: string where
  \<comment> \<open>route.ts lines 402-410\<close>
  "claude_analyses =
     ''\<newline>'' @
     ''\<newline>'' @
     ''Please provide the following analysis in a JSON format:\<newline>'' @
     ''1. Overall sentiment analysis with a score from -10 to +10\<newline>'' @
     ''2. Key topics discussed with their frequency and context\<newline>'' @
     ''3. Patterns and trends identified with their significance\<newline>'' @
     ''4. Personalized insights based on the journal content\<newline>'' @
     ''5. Actionable suggestions for the journal writer\<newline>''"

definition word_cloud_line :: string where
  \<comment> \<open>route.ts lines 319 and 414\<close>
  "word_cloud_line =
     ''\<newline>'' @
     ''6. Most frequently used words and their context''"

definition mood_distribution_line :: string where
  \<comment> \<open>route.ts lines 323 and 418\<close>
  "mood_distribution_line =
     ''\<newline>'' @
     ''7. Mood distribution and emotional patterns''"

definition goals_line :: string where
  \<comment> \<open>route.ts lines 327 and 422\<close>
  "goals_line =
     ''\<newline>'' @
     ''8. Goals mentioned and progress tracking''"

definition social_interactions_line :: string where
  \<comment> \<open>route.ts lines 331 and 426\<close>
  "social_interactions_line =
     ''\<newline>'' @
     ''9. People mentioned and relationship dynamics''"

definition json_directive :: string where
  \<comment> \<open>route.ts lines 335 and 430: the closing directive\<close>
  "json_directive =
     ''\<newline>'' @
     ''\<newline>'' @
     ''Return ONLY a valid JSON object with the following structure:\<newline>''"

definition json_example :: string where
  \<comment> \<open>route.ts lines 336-342 and 431-437: the literal example of the JSON shape\<close>
  "json_example =
     ''{\<newline>'' @
     ''    \"sentiment\": { \"overall\": \"string description\", \"score\": number },\<newline>'' @
     ''    \"topics\": [{ \"name\": \"string\", \"frequency\": number, \"context\": \"string\" }],\<newline>'' @
     ''    \"patterns\": [{ \"pattern\": \"string\", \"significance\": \"string\" }],\<newline>'' @
     ''    \"insights\": [\"string\"],\<newline>'' @
     ''    \"suggestions\": [\"string\"]\<newline>'' @
     ''}''"

definition formatJournalPromptForGemini :: "world \<Rightarrow> jsval \<Rightarrow> jsval \<Rightarrow> string" where
  "formatJournalPromptForGemini w prompt options =
     gemini_intro @ interpolate w prompt @ gemini_analyses @
     gemini_format_directive @ gemini_json_shape @ gemini_closing"

text \<open>\<^verbatim>\<open>if (options.flag) { structuredPrompt += line; }\<close>\<close>

definition append_if :: "jsval \<Rightarrow> string \<Rightarrow> string \<Rightarrow> string \<Rightarrow> exn + string" where
  "append_if options flag line structuredPrompt =
     seq (get options flag)
       (\<lambda>v. Inr (if truthy v then structuredPrompt @ line else structuredPrompt))"

definition formatJournalPromptForOpenAI :: "world \<Rightarrow> jsval \<Rightarrow> jsval \<Rightarrow> exn + string" where
  "formatJournalPromptForOpenAI w prompt options =
     seq (Inr (openai_intro @ interpolate w prompt @ openai_analyses)) (\<lambda>s0.
     seq (append_if options ''includeWordCloud'' word_cloud_line s0) (\<lambda>s1.
     seq (append_if options ''includeMoodDistribution'' mood_distribution_line s1) (\<lambda>s2.
     seq (append_if options ''includeGoals'' goals_line s2) (\<lambda>s3.
     seq (append_if options ''includeSocialInteractions'' social_interactions_line s3) (\<lambda>s4.
     Inr (s4 @ json_directive @ json_example))))))"

definition formatJournalPromptForClaude :: "world \<Rightarrow> jsval \<Rightarrow> jsval \<Rightarrow> exn + string" where
  "formatJournalPromptForClaude w prompt options =
     seq (Inr (claude_intro @ interpolate w prompt @ claude_analyses)) (\<lambda>s0.
     seq (append_if options ''includeWordCloud'' word_cloud_line s0) (\<lambda>s1.
     seq (append_if options ''includeMoodDistribution'' mood_distribution_line s1) (\<lambda>s2.
     seq (append_if options ''includeGoals'' goals_line s2) (\<lambda>s3.
     seq (append_if options ''includeSocialInteractions'' social_interactions_line s3) (\<lambda>s4.
     Inr (s4 @ json_directive @ json_example))))))"

subsection \<open>Provider adapters\<close>

text \<open>
  Each adapter is a \<^verbatim>\<open>try\<close> block and a \<^verbatim>\<open>catch\<close> block. The \<^verbatim>\<open>try\<close> block is modelled
  first: it yields the text of the reply or the thrown value, and the effects performed.
  The arguments of a call are evaluated before the call, so a throw among them leaves no
  \<^verbatim>\<open>Call\<close> in the trace. The body of a \<^verbatim>\<open>fetch\<close> is what \<^verbatim>\<open>JSON.stringify\<close> writes. The
  Gemini adapter hands its argument object to the client library; it puts the token budget
  and the sampling parameters under the key \<^verbatim>\<open>generationConfig\<close>, which the source marks
  \<^verbatim>\<open>@ts-expect-error\<close> (the client's parameter type has no such key). The trace records the
  argument object as the adapter builds it; what the client sends of it is not part of
  the source.
\<close>

text \<open>A step of a \<^verbatim>\<open>try\<close> block that may throw: a throw ends the block with the effects
  \<^verbatim>\<open>t\<close> performed so far.\<close>

definition step :: "exn + 'a \<Rightarrow> event list \<Rightarrow> ('a \<Rightarrow> (exn + 'b) \<times> event list) \<Rightarrow> (exn + 'b) \<times> event list" where
  "step m t f = (case m of Inl e \<Rightarrow> (Inl e, t) | Inr x \<Rightarrow> f x)"

definition getGeminiResponse_try :: "world \<Rightarrow> jsval \<Rightarrow> jsval \<Rightarrow> (exn + jsval) \<times> event list" where
  "getGeminiResponse_try w prompt options =
     (let t = [EnvRead ''GEMINI_API_KEY''] in
      case env w ''GEMINI_API_KEY'' of
        None \<Rightarrow> (Inl (Error ''GEMINI_API_KEY is not defined in environment variables''), t)
      | Some apiKey \<Rightarrow>
          if apiKey = [] then
            (Inl (Error ''GEMINI_API_KEY is not defined in environment variables''), t)
          else
            let structuredPrompt = formatJournalPromptForGemini w prompt options in
            step (get options ''temperature'') t (\<lambda>temperature.
            step (get options ''topP'') t (\<lambda>topP.
            step (get options ''topK'') t (\<lambda>topK.
              let params = Obj
                    [(''model'', Str (modelName (LLM_CONFIG gemini))),
                     (''contents'', Str structuredPrompt),
                     (''generationConfig'', Obj
                        [(''maxOutputTokens'', Num (Finite (real (maxTokens (LLM_CONFIG gemini))))),
                         (''temperature'', or_else temperature (Num (Finite 0.7))),
                         (''topP'', or_else topP (Num (Finite 0.95))),
                         (''topK'', or_else topK (Num (Finite 40)))])]
              in (generateContent w apiKey params, t @ [Call (GenerateContent apiKey params)])))))"

definition getGeminiResponse :: "world \<Rightarrow> jsval \<Rightarrow> jsval \<Rightarrow> LLMResponse \<times> event list" where
  "getGeminiResponse w prompt options =
     (case getGeminiResponse_try w prompt options of
        (Inr txt, t) \<Rightarrow>
          (\<lparr>text' = txt, model = modelName (LLM_CONFIG gemini), error = None\<rparr>, t)
      | (Inl e, t) \<Rightarrow>
          (\<lparr>text' = Str '''', model = modelName (LLM_CONFIG gemini),
            error = Some (message w e)\<rparr>, t))"

text \<open>What \<^verbatim>\<open>getOpenAIResponse\<close> does with the outcome of its \<^verbatim>\<open>fetch\<close>.\<close>

definition openai_reply :: "world \<Rightarrow> exn + response \<Rightarrow> exn + jsval" where
  "openai_reply w r =
     seq r (\<lambda>response.
       if \<not> ok response then
         seq (json response) (\<lambda>error.
         seq (get error ''error'') (\<lambda>inner.
           Inl (Error (interpolate w
             (or_else (opt_prop inner ''message'') (Str ''OpenAI API error''))))))
       else
         seq (json response) (\<lambda>data.
         seq (get data ''choices'') (\<lambda>choices.
         seq (at0 choices) (\<lambda>choice.
         seq (get choice ''message'') (\<lambda>msg.
         get msg ''content'')))))"

definition getOpenAIResponse_try :: "world \<Rightarrow> jsval \<Rightarrow> jsval \<Rightarrow> (exn + jsval) \<times> event list" where
  "getOpenAIResponse_try w prompt options =
     (let t = [EnvRead ''OPENAI_API_KEY''] in
      case env w ''OPENAI_API_KEY'' of
        None \<Rightarrow> (Inl (Error ''OPENAI_API_KEY is not defined in environment variables''), t)
      | Some apiKey \<Rightarrow>
          if apiKey = [] then
            (Inl (Error ''OPENAI_API_KEY is not defined in environment variables''), t)
          else
            step (formatJournalPromptForOpenAI w prompt options) t (\<lambda>content.
            step (get options ''temperature'') t (\<lambda>temperature.
            step (get options ''topP'') t (\<lambda>topP.
              let url = ''https://api.openai.com/v1/chat/completions'';
                  headers = [(''Content-Type'', ''application/json''),
                             (''Authorization'', ''Bearer '' @ apiKey)];
                  body = JSON_stringify (Obj
                    [(''model'', Str (modelName (LLM_CONFIG openai))),
                     (''messages'', Arr
                        [Obj [(''role'', Str ''system''),
                              (''content'', Str ''You are a professional journal analyzer providing insights and analysis.'')],
                         Obj [(''role'', Str ''user''), (''content'', Str content)]]),
                     (''max_tokens'', Num (Finite (real (maxTokens (LLM_CONFIG openai))))),
                     (''temperature'', or_else temperature (Num (Finite 0.7))),
                     (''top_p'', or_else topP (Num (Finite 0.95)))])
              in (openai_reply w (fetch w url ''POST'' headers body),
                  t @ [Call (Fetch url ''POST'' headers body)])))))"

definition getOpenAIResponse :: "world \<Rightarrow> jsval \<Rightarrow> jsval \<Rightarrow> LLMResponse \<times> event list" where
  "getOpenAIResponse w prompt options =
     (case getOpenAIResponse_try w prompt options of
        (Inr txt, t) \<Rightarrow>
          (\<lparr>text' = txt, model = modelName (LLM_CONFIG openai), error = None\<rparr>, t)
      | (Inl e, t) \<Rightarrow>
          (\<lparr>text' = Str '''', model = modelName (LLM_CONFIG openai),
            error = Some (message w e)\<rparr>, t))"

text \<open>What \<^verbatim>\<open>getClaudeResponse\<close> does with the outcome of its \<^verbatim>\<open>fetch\<close>.\<close>

definition claude_reply :: "world \<Rightarrow> exn + response \<Rightarrow> exn + jsval" where
  "claude_reply w r =
     seq r (\<lambda>response.
       if \<not> ok response then
         seq (json response) (\<lambda>error.
         seq (get error ''error'') (\<lambda>inner.
           Inl (Error (interpolate w
             (or_else (opt_prop inner ''message'') (Str ''Claude API error''))))))
       else
         seq (json response) (\<lambda>data.
         seq (get data ''content'') (\<lambda>content.
           Inr (or_else (opt_prop (opt_at0 content) ''text'') (Str '''')))))"

definition getClaudeResponse_try :: "world \<Rightarrow> jsval \<Rightarrow> jsval \<Rightarrow> (exn + jsval) \<times> event list" where
  "getClaudeResponse_try w prompt options =
     (let t = [EnvRead ''ANTHROPIC_API_KEY''] in
      case env w ''ANTHROPIC_API_KEY'' of
        None \<Rightarrow> (Inl (Error ''ANTHROPIC_API_KEY is not defined in environment variables''), t)
      | Some apiKey \<Rightarrow>
          if apiKey = [] then
            (Inl (Error ''ANTHROPIC_API_KEY is not defined in environment variables''), t)
          else
            step (formatJournalPromptForClaude w prompt options) t (\<lambda>content.
            step (get options ''temperature'') t (\<lambda>temperature.
              let url = ''https://api.anthropic.com/v1/messages'';
                  headers = [(''Content-Type'', ''application/json''),
                             (''x-api-key'', apiKey),
                             (''anthropic-version'', ''2023-06-01'')];
                  body = JSON_stringify (Obj
                    [(''model'', Str (modelName (LLM_CONFIG claude))),
                     (''messages'', Arr
                        [Obj [(''role'', Str ''user''), (''content'', Str content)]]),
                     (''max_tokens'', Num (Finite (real (maxTokens (LLM_CONFIG claude))))),
                     (''temperature'', or_else temperature (Num (Finite 0.7)))])
              in (claude_reply w (fetch w url ''POST'' headers body),
                  t @ [Call (Fetch url ''POST'' headers body)]))))"

definition getClaudeResponse :: "world \<Rightarrow> jsval \<Rightarrow> jsval \<Rightarrow> LLMResponse \<times> event list" where
  "getClaudeResponse w prompt options =
     (case getClaudeResponse_try w prompt options of
        (Inr txt, t) \<Rightarrow>
          (\<lparr>text' = txt, model = modelName (LLM_CONFIG claude), error = None\<rparr>, t)
      | (Inl e, t) \<Rightarrow>
          (\<lparr>text' = Str '''', model = modelName (LLM_CONFIG claude),
            error = Some (message w e)\<rparr>, t))"

subsection \<open>The dispatcher\<close>

text \<open>
  The body of a \<^verbatim>\<open>NextResponse.json\<close>: an error object \<^verbatim>\<open>{error, details?}\<close> or an
  \<^verbatim>\<open>LLMResponse\<close>.
\<close>

datatype payload = ErrorPayload string "string option" | ResultPayload LLMResponse

record NextResponse =
  status :: nat
  payload :: payload

text \<open>
  The defaults of the destructuring pattern, evaluated only where the property is
  \<^verbatim>\<open>undefined\<close>: \<^verbatim>\<open>provider = process.env.DEFAULT_LLM_PROVIDER\<close> (a read of the
  environment) and \<^verbatim>\<open>options = {}\<close>.
\<close>

definition default_provider :: "world \<Rightarrow> jsval \<Rightarrow> jsval \<times> event list" where
  "default_provider w provider =
     (if provider = Undefined then
        ((case env w ''DEFAULT_LLM_PROVIDER'' of None \<Rightarrow> Undefined | Some s \<Rightarrow> Str s),
         [EnvRead ''DEFAULT_LLM_PROVIDER''])
      else (provider, []))"

definition default_options :: "jsval \<Rightarrow> jsval" where
  "default_options options = (if options = Undefined then Obj [] else options)"

text \<open>
  The \<^verbatim>\<open>try\<close> block of \<^verbatim>\<open>POST\<close>. Its argument is the outcome of \<^verbatim>\<open>await request.json()\<close>.
  Destructuring reads \<^verbatim>\<open>prompt\<close>, \<^verbatim>\<open>provider\<close> and \<^verbatim>\<open>options\<close> in this order and throws
  on \<^verbatim>\<open>null\<close>. The \<^verbatim>\<open>switch\<close> compares with \<^verbatim>\<open>===\<close>.
\<close>

definition POST_try :: "world \<Rightarrow> exn + jsval \<Rightarrow> (exn + NextResponse) \<times> event list" where
  "POST_try w request =
     step request [] (\<lambda>parsed.
     step (get parsed ''prompt'') [] (\<lambda>prompt.
     step (get parsed ''provider'') [] (\<lambda>provider0.
     step (get parsed ''options'') [] (\<lambda>options0.
       let (provider, t) = default_provider w provider0;
           options = default_options options0
       in
         if \<not> truthy prompt then
           (Inr \<lparr>status = 400, payload = ErrorPayload ''Prompt is required'' None\<rparr>, t)
         else if provider = Str ''gemini'' then
           (let (response, t') = getGeminiResponse w prompt options
            in (Inr \<lparr>status = 200, payload = ResultPayload response\<rparr>, t @ t'))
         else if provider = Str ''openai'' then
           (let (response, t') = getOpenAIResponse w prompt options
            in (Inr \<lparr>status = 200, payload = ResultPayload response\<rparr>, t @ t'))
         else if provider = Str ''claude'' then
           (let (response, t') = getClaudeResponse w prompt options
            in (Inr \<lparr>status = 200, payload = ResultPayload response\<rparr>, t @ t'))
         else
           (Inr \<lparr>status = 400, payload = ErrorPayload ''Invalid LLM provider'' None\<rparr>, t)))))"

definition POST :: "world \<Rightarrow> exn + jsval \<Rightarrow> NextResponse \<times> event list" where
  "POST w request =
     (case POST_try w request of
        (Inr response, t) \<Rightarrow> (response, t)
      | (Inl e, t) \<Rightarrow>
          (\<lparr>status = 500,
            payload = ErrorPayload ''Failed to process request'' (Some (message w e))\<rparr>, t))"

subsection \<open>Vocabulary of the properties\<close>

text \<open>The identifier, the credential and the adapter of each provider, as \<^verbatim>\<open>POST\<close> and the
  adapters name them.\<close>

fun provider_id :: "LLMProvider \<Rightarrow> string" where
  "provider_id gemini = ''gemini''"
| "provider_id openai = ''openai''"
| "provider_id claude = ''claude''"

fun credential :: "LLMProvider \<Rightarrow> string" where
  "credential gemini = ''GEMINI_API_KEY''"
| "credential openai = ''OPENAI_API_KEY''"
| "credential claude = ''ANTHROPIC_API_KEY''"

fun adapter :: "LLMProvider \<Rightarrow> world \<Rightarrow> jsval \<Rightarrow> jsval \<Rightarrow> LLMResponse \<times> event list" where
  "adapter gemini = getGeminiResponse"
| "adapter openai = getOpenAIResponse"
| "adapter claude = getClaudeResponse"

text \<open>The outbound calls of a trace, in order.\<close>

fun calls :: "event list \<Rightarrow> outbound list" where
  "calls [] = []"
| "calls (Call c # t) = c # calls t"
| "calls (EnvRead k # t) = calls t"

text \<open>An effect that only an adapter performs: an outbound call, or a read of a credential.\<close>

fun adapter_effect :: "event \<Rightarrow> bool" where
  "adapter_effect (Call c) = True"
| "adapter_effect (EnvRead k) =
     (k = ''GEMINI_API_KEY'' \<or> k = ''OPENAI_API_KEY'' \<or> k = ''ANTHROPIC_API_KEY'')"

text \<open>The provider an effect belongs to: that of the credential read, of the client called
  or of the endpoint fetched.\<close>

fun owner :: "event \<Rightarrow> LLMProvider option" where
  "owner (EnvRead k) =
     (if k = ''GEMINI_API_KEY'' then Some gemini
      else if k = ''OPENAI_API_KEY'' then Some openai
      else if k = ''ANTHROPIC_API_KEY'' then Some claude
      else None)"
| "owner (Call (GenerateContent apiKey params)) = Some gemini"
| "owner (Call (Fetch url method headers body)) =
     (if url = ''https://api.openai.com/v1/chat/completions'' then Some openai
      else if url = ''https://api.anthropic.com/v1/messages'' then Some claude
      else None)"

text \<open>The value that the body of each \<^verbatim>\<open>fetch\<close> of a trace carries under a given name
  (\<^verbatim>\<open>Undefined\<close>: the body has no such member). A call of the Gemini client is not a
  \<^verbatim>\<open>fetch\<close> of the handler and contributes nothing.\<close>

fun sent :: "string \<Rightarrow> event list \<Rightarrow> jsval list" where
  "sent name [] = []"
| "sent name (Call (Fetch url method headers body) # t) = opt_prop body name # sent name t"
| "sent name (Call (GenerateContent apiKey params) # t) = sent name t"
| "sent name (EnvRead k # t) = sent name t"

text \<open>The optional instruction lines of the OpenAI and Claude builders with the flags that
  request them, and the lines a given \<^verbatim>\<open>options\<close> value requests: each flag contributes its
  own line when set and nothing otherwise.\<close>

definition optional_lines :: "(string \<times> string) list" where
  "optional_lines =
     [(''includeWordCloud'', word_cloud_line),
      (''includeMoodDistribution'', mood_distribution_line),
      (''includeGoals'', goals_line),
      (''includeSocialInteractions'', social_interactions_line)]"

fun requested_lines :: "jsval \<Rightarrow> (string \<times> string) list \<Rightarrow> string" where
  "requested_lines options [] = []"
| "requested_lines options ((flag, line) # rest) =
     (if truthy (opt_prop options flag) then line else []) @ requested_lines options rest"

fun flags_set :: "jsval \<Rightarrow> (string \<times> string) list \<Rightarrow> nat" where
  "flags_set options [] = 0"
| "flags_set options ((flag, line) # rest) =
     (if truthy (opt_prop options flag) then 1 else 0) + flags_set options rest"

text \<open>Two worlds to evaluate the program in: one with the three credentials configured, a
  Gemini client that answers \<^verbatim>\<open>ok\<close> and a network that is down; one with an empty
  environment.\<close>

definition example_world :: world where
  "example_world =
     \<lparr>env = [''GEMINI_API_KEY'' \<mapsto> ''g-key'', ''OPENAI_API_KEY'' \<mapsto> ''o-key'',
             ''ANTHROPIC_API_KEY'' \<mapsto> ''a-key''],
      generateContent = (\<lambda>apiKey params. Inr (Str ''ok'')),
      fetch = (\<lambda>url method headers body. Inl (Error ''fetch failed'')),
      to_string = (\<lambda>v. ''[object Object]''),
      type_error_message = (\<lambda>v k. ''Cannot read properties of undefined'')\<rparr>"

definition bare_world :: world where
  "bare_world = example_world\<lparr>env := Map.empty\<rparr>"

section \<open>Properties\<close>

subsection \<open>Reading properties\<close>

lemma get_total: "v \<noteq> Null \<Longrightarrow> v \<noteq> Undefined \<Longrightarrow> get v k = Inr (opt_prop v k)"
  by (cases v) (simp_all add: opt_prop_def)

lemma get_Inr_opt_prop: "get v k = Inr x \<Longrightarrow> opt_prop v k = x"
  by (simp add: opt_prop_def)

lemma get_Inr_not_nullish: "get v k = Inr x \<Longrightarrow> v \<noteq> Null \<and> v \<noteq> Undefined"
  by (cases v) simp_all

subsection \<open>The prompt builders in closed form\<close>

lemma append_if_total:
  "options \<noteq> Null \<Longrightarrow> options \<noteq> Undefined \<Longrightarrow>
   append_if options flag line s = Inr (s @ (if truthy (opt_prop options flag) then line else []))"
  by (simp add: append_if_def seq_def get_total)

lemma openai_prompt_closed:
  "options \<noteq> Null \<Longrightarrow> options \<noteq> Undefined \<Longrightarrow>
   formatJournalPromptForOpenAI w p options =
     Inr (openai_intro @ interpolate w p @ openai_analyses @
          requested_lines options optional_lines @ json_directive @ json_example)"
  by (simp add: formatJournalPromptForOpenAI_def append_if_total seq_def optional_lines_def)

lemma claude_prompt_closed:
  "options \<noteq> Null \<Longrightarrow> options \<noteq> Undefined \<Longrightarrow>
   formatJournalPromptForClaude w p options =
     Inr (claude_intro @ interpolate w p @ claude_analyses @
          requested_lines options optional_lines @ json_directive @ json_example)"
  by (simp add: formatJournalPromptForClaude_def append_if_total seq_def optional_lines_def)

subsection \<open>Results and traces of the adapters\<close>

lemma gemini_snd: "snd (getGeminiResponse w p opts) = snd (getGeminiResponse_try w p opts)"
  by (simp add: getGeminiResponse_def split: prod.splits sum.splits)

lemma openai_snd: "snd (getOpenAIResponse w p opts) = snd (getOpenAIResponse_try w p opts)"
  by (simp add: getOpenAIResponse_def split: prod.splits sum.splits)

lemma claude_snd: "snd (getClaudeResponse w p opts) = snd (getClaudeResponse_try w p opts)"
  by (simp add: getClaudeResponse_def split: prod.splits sum.splits)

lemma gemini_result:
  "model (fst (getGeminiResponse w p opts)) = modelName (LLM_CONFIG gemini) \<and>
   (error (fst (getGeminiResponse w p opts)) \<noteq> None \<longrightarrow> text' (fst (getGeminiResponse w p opts)) = Str '''')"
  by (simp add: getGeminiResponse_def split: prod.splits sum.splits)

lemma openai_result:
  "model (fst (getOpenAIResponse w p opts)) = modelName (LLM_CONFIG openai) \<and>
   (error (fst (getOpenAIResponse w p opts)) \<noteq> None \<longrightarrow> text' (fst (getOpenAIResponse w p opts)) = Str '''')"
  by (simp add: getOpenAIResponse_def split: prod.splits sum.splits)

lemma claude_result:
  "model (fst (getClaudeResponse w p opts)) = modelName (LLM_CONFIG claude) \<and>
   (error (fst (getClaudeResponse w p opts)) \<noteq> None \<longrightarrow> text' (fst (getClaudeResponse w p opts)) = Str '''')"
  by (simp add: getClaudeResponse_def split: prod.splits sum.splits)

lemma gemini_missing:
  "env w ''GEMINI_API_KEY'' = None \<or> env w ''GEMINI_API_KEY'' = Some [] \<Longrightarrow>
   getGeminiResponse w p opts =
     (\<lparr>text' = Str '''', model = ''gemini-2.0-flash'',
       error = Some ''GEMINI_API_KEY is not defined in environment variables''\<rparr>,
      [EnvRead ''GEMINI_API_KEY''])"
  by (auto simp add: getGeminiResponse_def getGeminiResponse_try_def)

lemma openai_missing:
  "env w ''OPENAI_API_KEY'' = None \<or> env w ''OPENAI_API_KEY'' = Some [] \<Longrightarrow>
   getOpenAIResponse w p opts =
     (\<lparr>text' = Str '''', model = ''gpt-3.5-turbo'',
       error = Some ''OPENAI_API_KEY is not defined in environment variables''\<rparr>,
      [EnvRead ''OPENAI_API_KEY''])"
  by (auto simp add: getOpenAIResponse_def getOpenAIResponse_try_def)

lemma claude_missing:
  "env w ''ANTHROPIC_API_KEY'' = None \<or> env w ''ANTHROPIC_API_KEY'' = Some [] \<Longrightarrow>
   getClaudeResponse w p opts =
     (\<lparr>text' = Str '''', model = ''claude-3-haiku-20240307'',
       error = Some ''ANTHROPIC_API_KEY is not defined in environment variables''\<rparr>,
      [EnvRead ''ANTHROPIC_API_KEY''])"
  by (auto simp add: getClaudeResponse_def getClaudeResponse_try_def)

lemma gemini_trace_shape:
  "snd (getGeminiResponse_try w p opts) = [EnvRead ''GEMINI_API_KEY''] \<or>
   (\<exists>k ps. snd (getGeminiResponse_try w p opts) =
      [EnvRead ''GEMINI_API_KEY'', Call (GenerateContent k ps)])"
  by (simp add: getGeminiResponse_try_def step_def Let_def split: option.splits sum.splits)

lemma openai_trace_shape:
  "snd (getOpenAIResponse_try w p opts) = [EnvRead ''OPENAI_API_KEY''] \<or>
   (\<exists>hs b. snd (getOpenAIResponse_try w p opts) =
      [EnvRead ''OPENAI_API_KEY'',
       Call (Fetch ''https://api.openai.com/v1/chat/completions'' ''POST'' hs b)])"
  by (simp add: getOpenAIResponse_try_def step_def Let_def split: option.splits sum.splits)

lemma claude_trace_shape:
  "snd (getClaudeResponse_try w p opts) = [EnvRead ''ANTHROPIC_API_KEY''] \<or>
   (\<exists>hs b. snd (getClaudeResponse_try w p opts) =
      [EnvRead ''ANTHROPIC_API_KEY'',
       Call (Fetch ''https://api.anthropic.com/v1/messages'' ''POST'' hs b)])"
  by (simp add: getClaudeResponse_try_def step_def Let_def split: option.splits sum.splits)

lemma adapter_trace:
  "snd (adapter P w p opts) = [EnvRead (credential P)] \<or>
   (\<exists>c. snd (adapter P w p opts) = [EnvRead (credential P), Call c] \<and> owner (Call c) = Some P)"
proof (cases P)
  case gemini
  then show ?thesis using gemini_trace_shape [of w p opts] by (auto simp add: gemini_snd)
next
  case openai
  then show ?thesis using openai_trace_shape [of w p opts] by (auto simp add: openai_snd)
next
  case claude
  then show ?thesis using claude_trace_shape [of w p opts] by (auto simp add: claude_snd)
qed

lemma owner_credential: "owner (EnvRead (credential P)) = Some P"
  by (cases P) simp_all

subsection \<open>Outcomes of the dispatcher\<close>

lemma POST_no_prompt:
  assumes "get parsed ''prompt'' = Inr p" and "\<not> truthy p"
  shows "POST w (Inr parsed) =
           (\<lparr>status = 400, payload = ErrorPayload ''Prompt is required'' None\<rparr>,
            snd (default_provider w (opt_prop parsed ''provider'')))"
proof -
  from assms(1) have "parsed \<noteq> Null" "parsed \<noteq> Undefined"
    using get_Inr_not_nullish by blast+
  then have "get parsed k = Inr (opt_prop parsed k)" for k
    by (rule get_total)
  with assms show ?thesis
    by (simp add: POST_def POST_try_def step_def Let_def case_prod_beta)
qed

lemma POST_dispatch:
  assumes "get parsed ''prompt'' = Inr p" and "truthy p"
    and "fst (default_provider w (opt_prop parsed ''provider'')) = Str (provider_id P)"
  shows "POST w (Inr parsed) =
           (\<lparr>status = 200,
             payload = ResultPayload
               (fst (adapter P w p (default_options (opt_prop parsed ''options''))))\<rparr>,
            snd (default_provider w (opt_prop parsed ''provider'')) @
            snd (adapter P w p (default_options (opt_prop parsed ''options''))))"
proof -
  from assms(1) have "parsed \<noteq> Null" "parsed \<noteq> Undefined"
    using get_Inr_not_nullish by blast+
  then have "get parsed k = Inr (opt_prop parsed k)" for k
    by (rule get_total)
  with assms show ?thesis
    by (cases P) (simp_all add: POST_def POST_try_def step_def Let_def case_prod_beta)
qed

lemma POST_invalid_provider:
  assumes "get parsed ''prompt'' = Inr p" and "truthy p"
    and "fst (default_provider w (opt_prop parsed ''provider'')) \<noteq> Str ''gemini''"
    and "fst (default_provider w (opt_prop parsed ''provider'')) \<noteq> Str ''openai''"
    and "fst (default_provider w (opt_prop parsed ''provider'')) \<noteq> Str ''claude''"
  shows "POST w (Inr parsed) =
           (\<lparr>status = 400, payload = ErrorPayload ''Invalid LLM provider'' None\<rparr>,
            snd (default_provider w (opt_prop parsed ''provider'')))"
proof -
  from assms(1) have "parsed \<noteq> Null" "parsed \<noteq> Undefined"
    using get_Inr_not_nullish by blast+
  then have "get parsed k = Inr (opt_prop parsed k)" for k
    by (rule get_total)
  with assms show ?thesis
    by (simp add: POST_def POST_try_def step_def Let_def case_prod_beta)
qed

lemma default_provider_effects: "filter adapter_effect (snd (default_provider w pv)) = []"
  by (simp add: default_provider_def)

lemma default_provider_calls: "calls (snd (default_provider w pv)) = []"
  by (simp add: default_provider_def)

lemma calls_append: "calls (t @ t') = calls t @ calls t'"
  by (induction t rule: calls.induct) simp_all

subsection \<open>The adapters, uniformly in the provider\<close>

lemma adapter_missing:
  assumes "env w (credential P) = None \<or> env w (credential P) = Some []"
  shows "adapter P w p opts =
           (\<lparr>text' = Str '''', model = modelName (LLM_CONFIG P),
             error = Some (credential P @ '' is not defined in environment variables'')\<rparr>,
            [EnvRead (credential P)])"
proof (cases P)
  case gemini
  with assms show ?thesis using gemini_missing [of w p opts] by simp
next
  case openai
  with assms show ?thesis using openai_missing [of w p opts] by simp
next
  case claude
  with assms show ?thesis using claude_missing [of w p opts] by simp
qed

lemma adapter_calls_le: "length (calls (snd (adapter P w p opts))) \<le> 1"
  using adapter_trace [of P w p opts] by auto

lemma adapter_owned: "list_all (\<lambda>e. owner e = Some P) (snd (adapter P w p opts))"
  using adapter_trace [of P w p opts] by (auto simp add: owner_credential simp del: owner.simps(1))

lemma adapter_effect_credential: "adapter_effect (EnvRead (credential P))"
  by (cases P) simp_all

lemma adapter_effects: "filter adapter_effect (snd (adapter P w p opts)) = snd (adapter P w p opts)"
  using adapter_trace [of P w p opts]
  by (auto simp add: adapter_effect_credential simp del: adapter_effect.simps(2))

lemma adapter_invoked: "hd (snd (adapter P w p opts)) = EnvRead (credential P)"
  using adapter_trace [of P w p opts] by auto

subsection \<open>The optional instruction lines\<close>

lemma count_requested_lines:
  "count_list (requested_lines options optional_lines) CHR ''\<newline>'' =
   flags_set options optional_lines"
  by (simp add: optional_lines_def count_list_append
      word_cloud_line_def mood_distribution_line_def goals_line_def social_interactions_line_def)

lemma requested_lines_none: "requested_lines (Obj []) optional_lines = []"
  by (simp add: optional_lines_def opt_prop_def)

subsection \<open>How the prompts end\<close>

lemma suffix_after3: "suffix s (a @ b @ c @ s)"
  using suffixI [of "a @ b @ c @ s" "a @ b @ c" s] by simp

lemma suffix_after4: "suffix s (a @ b @ c @ d @ s)"
  using suffixI [of "a @ b @ c @ d @ s" "a @ b @ c @ d" s] by simp

lemma gemini_json_shape_ends: "suffix ''}'' gemini_json_shape"
  unfolding gemini_json_shape_def by (intro suffix_appendI) simp

lemma gemini_closing_ends: "gemini_closing = ''\<newline>Return ONLY valid JSON.'' @ [CHR ''\<newline>'']"
  by (simp add: gemini_closing_def)

lemma gemini_prompt_not_ending_with_shape:
  "\<not> suffix gemini_json_shape (xs @ gemini_json_shape @ gemini_closing)"
proof
  assume a: "suffix gemini_json_shape (xs @ gemini_json_shape @ gemini_closing)"
  from gemini_json_shape_ends obtain zs where zs: "gemini_json_shape = zs @ [CHR ''}'']"
    by (auto simp add: suffix_def)
  have "xs @ gemini_json_shape @ gemini_closing =
      (xs @ gemini_json_shape @ ''\<newline>Return ONLY valid JSON.'') @ [CHR ''\<newline>'']"
    by (simp only: gemini_closing_ends append_assoc)
  with a have "suffix gemini_json_shape
      ((xs @ gemini_json_shape @ ''\<newline>Return ONLY valid JSON.'') @ [CHR ''\<newline>''])"
    by simp
  then have "suffix (zs @ [CHR ''}''])
      ((xs @ gemini_json_shape @ ''\<newline>Return ONLY valid JSON.'') @ [CHR ''\<newline>''])"
    using zs by simp
  then have "CHR ''}'' = CHR ''\<newline>''"
    by (simp only: snoc_suffix_snoc)
  then show False
    by simp
qed

subsection \<open>The outbound call of each adapter\<close>

lemma JSON_stringify_Undefined: "JSON_stringify v = Undefined \<longleftrightarrow> v = Undefined"
  by (cases v) (simp_all split: number.splits)

lemma truthy_not_Undefined: "truthy v \<Longrightarrow> v \<noteq> Undefined"
  by (cases v) simp_all

lemma or_else_not_Undefined: "truthy d \<Longrightarrow> or_else v d \<noteq> Undefined"
  by (auto simp add: or_else_def dest: truthy_not_Undefined)

lemma gemini_call:
  assumes "env w ''GEMINI_API_KEY'' = Some key" and "key \<noteq> []"
    and "opts \<noteq> Null" and "opts \<noteq> Undefined"
  shows "snd (getGeminiResponse w p opts) =
     [EnvRead ''GEMINI_API_KEY'',
      Call (GenerateContent key (Obj
        [(''model'', Str ''gemini-2.0-flash''),
         (''contents'', Str (formatJournalPromptForGemini w p opts)),
         (''generationConfig'', Obj
            [(''maxOutputTokens'', Num (Finite 8192)),
             (''temperature'', or_else (opt_prop opts ''temperature'') (Num (Finite 0.7))),
             (''topP'', or_else (opt_prop opts ''topP'') (Num (Finite 0.95))),
             (''topK'', or_else (opt_prop opts ''topK'') (Num (Finite 40)))])]))]"
  using assms by (simp add: gemini_snd getGeminiResponse_try_def step_def get_total Let_def)

lemma openai_call:
  assumes "env w ''OPENAI_API_KEY'' = Some key" and "key \<noteq> []"
    and "opts \<noteq> Null" and "opts \<noteq> Undefined"
  shows "snd (getOpenAIResponse w p opts) =
     [EnvRead ''OPENAI_API_KEY'',
      Call (Fetch ''https://api.openai.com/v1/chat/completions'' ''POST''
        [(''Content-Type'', ''application/json''), (''Authorization'', ''Bearer '' @ key)]
        (Obj
          [(''model'', Str ''gpt-3.5-turbo''),
           (''messages'', Arr
              [Obj [(''role'', Str ''system''),
                    (''content'', Str ''You are a professional journal analyzer providing insights and analysis.'')],
               Obj [(''role'', Str ''user''),
                    (''content'', Str (openai_intro @ interpolate w p @ openai_analyses @
                       requested_lines opts optional_lines @ json_directive @ json_example))]]),
           (''max_tokens'', Num (Finite 4096)),
           (''temperature'',
              JSON_stringify (or_else (opt_prop opts ''temperature'') (Num (Finite 0.7)))),
           (''top_p'',
              JSON_stringify (or_else (opt_prop opts ''topP'') (Num (Finite 0.95))))]))]"
  using assms
  by (simp add: openai_snd getOpenAIResponse_try_def step_def get_total Let_def
      openai_prompt_closed or_else_not_Undefined)

lemma claude_call:
  assumes "env w ''ANTHROPIC_API_KEY'' = Some key" and "key \<noteq> []"
    and "opts \<noteq> Null" and "opts \<noteq> Undefined"
  shows "snd (getClaudeResponse w p opts) =
     [EnvRead ''ANTHROPIC_API_KEY'',
      Call (Fetch ''https://api.anthropic.com/v1/messages'' ''POST''
        [(''Content-Type'', ''application/json''), (''x-api-key'', key),
         (''anthropic-version'', ''2023-06-01'')]
        (Obj
          [(''model'', Str ''claude-3-haiku-20240307''),
           (''messages'', Arr
              [Obj [(''role'', Str ''user''),
                    (''content'', Str (claude_intro @ interpolate w p @ claude_analyses @
                       requested_lines opts optional_lines @ json_directive @ json_example))]]),
           (''max_tokens'', Num (Finite 4096)),
           (''temperature'',
              JSON_stringify (or_else (opt_prop opts ''temperature'') (Num (Finite 0.7))))]))]"
  using assms
  by (simp add: claude_snd getClaudeResponse_try_def step_def get_total Let_def
      claude_prompt_closed or_else_not_Undefined)

lemma fetch_sent_temperature:
  assumes "P = openai \<or> P = claude"
    and "env w (credential P) = Some key" and "key \<noteq> []"
    and "opts \<noteq> Null" and "opts \<noteq> Undefined"
  shows "sent ''temperature'' (snd (adapter P w p opts)) =
           [JSON_stringify (or_else (opt_prop opts ''temperature'') (Num (Finite 0.7)))]"
  using assms by (auto simp add: openai_call claude_call opt_prop_def)

section \<open>The claims\<close>

text \<open>
  C1. A request whose \<^verbatim>\<open>prompt\<close> field is absent or the empty string is answered with
  status 400 and the body \<^verbatim>\<open>{error: "Prompt is required"}\<close>, and no adapter runs: the trace
  holds no outbound call and no read of a credential. (The body is any parsed JSON value
  whose properties can be read, that is, any value but \<^verbatim>\<open>null\<close>.)
\<close>

theorem POST_prompt_required:
  assumes "get parsed ''prompt'' = Inr Undefined \<or> get parsed ''prompt'' = Inr (Str '''')"
  shows "fst (POST w (Inr parsed)) =
           \<lparr>status = 400, payload = ErrorPayload ''Prompt is required'' None\<rparr> \<and>
         filter adapter_effect (snd (POST w (Inr parsed))) = []"
  using assms
  by (auto simp add: POST_no_prompt [of parsed Undefined] POST_no_prompt [of parsed "Str ''''"]
      default_provider_effects)

theorem POST_prompt_required_witness:
  "get (Obj [(''prompt'', Str ''''), (''provider'', Str ''gemini'')]) ''prompt'' = Inr (Str '''') \<and>
   fst (POST example_world (Inr (Obj [(''prompt'', Str ''''), (''provider'', Str ''gemini'')]))) =
     \<lparr>status = 400, payload = ErrorPayload ''Prompt is required'' None\<rparr> \<and>
   filter adapter_effect
     (snd (POST example_world (Inr (Obj [(''prompt'', Str ''''), (''provider'', Str ''gemini'')])))) = []"
  using POST_prompt_required [of "Obj [(''prompt'', Str ''''), (''provider'', Str ''gemini'')]" example_world]
  by simp

text \<open>
  C2. A request with a non-empty (indeed any truthy) \<^verbatim>\<open>prompt\<close> whose resolved provider
  (the \<^verbatim>\<open>provider\<close> field, or the configured default where the field is absent) is none of
  \<^verbatim>\<open>'gemini'\<close>, \<^verbatim>\<open>'openai'\<close>, \<^verbatim>\<open>'claude'\<close> is answered with status 400 and the body
  \<^verbatim>\<open>{error: "Invalid LLM provider"}\<close>, and no adapter runs.
\<close>

theorem POST_invalid_provider_rejected:
  assumes "get parsed ''prompt'' = Inr p" and "truthy p"
    and "fst (default_provider w (opt_prop parsed ''provider'')) \<noteq> Str ''gemini''"
    and "fst (default_provider w (opt_prop parsed ''provider'')) \<noteq> Str ''openai''"
    and "fst (default_provider w (opt_prop parsed ''provider'')) \<noteq> Str ''claude''"
  shows "fst (POST w (Inr parsed)) =
           \<lparr>status = 400, payload = ErrorPayload ''Invalid LLM provider'' None\<rparr> \<and>
         filter adapter_effect (snd (POST w (Inr parsed))) = []"
  using POST_invalid_provider [OF assms] by (simp add: default_provider_effects)

theorem POST_invalid_provider_rejected_witness:
  "get (Obj [(''prompt'', Str ''x''), (''provider'', Str ''unknown'')]) ''prompt'' = Inr (Str ''x'') \<and>
   truthy (Str ''x'') \<and>
   fst (default_provider example_world
     (opt_prop (Obj [(''prompt'', Str ''x''), (''provider'', Str ''unknown'')]) ''provider'')) = Str ''unknown'' \<and>
   fst (POST example_world (Inr (Obj [(''prompt'', Str ''x''), (''provider'', Str ''unknown'')]))) =
     \<lparr>status = 400, payload = ErrorPayload ''Invalid LLM provider'' None\<rparr> \<and>
   filter adapter_effect
     (snd (POST example_world (Inr (Obj [(''prompt'', Str ''x''), (''provider'', Str ''unknown'')])))) = []"
  using POST_invalid_provider_rejected
    [of "Obj [(''prompt'', Str ''x''), (''provider'', Str ''unknown'')]" "Str ''x''" example_world]
  by (simp add: default_provider_def opt_prop_def)

text \<open>
  C10. When the request has no \<^verbatim>\<open>provider\<close> field and \<^verbatim>\<open>DEFAULT_LLM_PROVIDER\<close> is not
  configured, a request with a non-empty prompt is answered with status 400 and
  \<^verbatim>\<open>{error: "Invalid LLM provider"}\<close> (not with 500), and the only effect is the read of
  \<^verbatim>\<open>DEFAULT_LLM_PROVIDER\<close>: no provider is contacted.
\<close>

theorem POST_no_default_provider:
  assumes "get parsed ''prompt'' = Inr p" and "truthy p"
    and "get parsed ''provider'' = Inr Undefined"
    and "env w ''DEFAULT_LLM_PROVIDER'' = None"
  shows "POST w (Inr parsed) =
           (\<lparr>status = 400, payload = ErrorPayload ''Invalid LLM provider'' None\<rparr>,
            [EnvRead ''DEFAULT_LLM_PROVIDER''])"
proof -
  from assms(3) have pv: "opt_prop parsed ''provider'' = Undefined"
    by (rule get_Inr_opt_prop)
  with assms(4) have "default_provider w (opt_prop parsed ''provider'') =
      (Undefined, [EnvRead ''DEFAULT_LLM_PROVIDER''])"
    by (simp add: default_provider_def)
  with POST_invalid_provider [OF assms(1,2), of w] show ?thesis
    by simp
qed

theorem POST_no_default_provider_witness:
  "get (Obj [(''prompt'', Str ''x'')]) ''prompt'' = Inr (Str ''x'') \<and> truthy (Str ''x'') \<and>
   get (Obj [(''prompt'', Str ''x'')]) ''provider'' = Inr Undefined \<and>
   env example_world ''DEFAULT_LLM_PROVIDER'' = None \<and>
   POST example_world (Inr (Obj [(''prompt'', Str ''x'')])) =
     (\<lparr>status = 400, payload = ErrorPayload ''Invalid LLM provider'' None\<rparr>,
      [EnvRead ''DEFAULT_LLM_PROVIDER''])"
  using POST_no_default_provider [of "Obj [(''prompt'', Str ''x'')]" "Str ''x''" example_world]
  by (simp add: example_world_def)

text \<open>
  C3. A request with a non-empty prompt that names a recognized provider whose credential
  is not set (or is set to the empty string) is answered with status 200 and a result whose
  \<^verbatim>\<open>text\<close> is \<^verbatim>\<open>""\<close>, whose \<^verbatim>\<open>model\<close> is the provider's configured model and whose \<^verbatim>\<open>error\<close>
  is the name of the credential followed by \<^verbatim>\<open>" is not defined in environment variables"\<close>;
  no outbound call is made. The witness is the instance of the specification: provider
  \<^verbatim>\<open>'openai'\<close> with \<^verbatim>\<open>OPENAI_API_KEY\<close> unset.
\<close>

theorem POST_missing_credential:
  assumes "get parsed ''prompt'' = Inr p" and "truthy p"
    and "fst (default_provider w (opt_prop parsed ''provider'')) = Str (provider_id P)"
    and "env w (credential P) = None \<or> env w (credential P) = Some []"
  shows "fst (POST w (Inr parsed)) =
           \<lparr>status = 200,
            payload = ResultPayload
              \<lparr>text' = Str '''', model = modelName (LLM_CONFIG P),
               error = Some (credential P @ '' is not defined in environment variables'')\<rparr>\<rparr> \<and>
         calls (snd (POST w (Inr parsed))) = []"
  using POST_dispatch [OF assms(1,2,3)] adapter_missing [OF assms(4)]
  by (simp add: calls_append default_provider_calls)

theorem POST_missing_credential_witness:
  "get (Obj [(''prompt'', Str ''x''), (''provider'', Str ''openai'')]) ''prompt'' = Inr (Str ''x'') \<and>
   truthy (Str ''x'') \<and>
   fst (default_provider bare_world
     (opt_prop (Obj [(''prompt'', Str ''x''), (''provider'', Str ''openai'')]) ''provider'')) =
     Str (provider_id openai) \<and>
   env bare_world (credential openai) = None \<and>
   fst (POST bare_world (Inr (Obj [(''prompt'', Str ''x''), (''provider'', Str ''openai'')]))) =
     \<lparr>status = 200,
      payload = ResultPayload
        \<lparr>text' = Str '''', model = ''gpt-3.5-turbo'',
         error = Some ''OPENAI_API_KEY is not defined in environment variables''\<rparr>\<rparr> \<and>
   calls (snd (POST bare_world (Inr (Obj [(''prompt'', Str ''x''), (''provider'', Str ''openai'')])))) = []"
  using POST_missing_credential
    [of "Obj [(''prompt'', Str ''x''), (''provider'', Str ''openai'')]" "Str ''x''" bare_world openai]
  by (simp add: default_provider_def opt_prop_def bare_world_def)

text \<open>
  C4. Every result of each of the three adapters, whatever the environment and whatever
  the provider answers (a rejected call, an error status, a malformed body included),
  carries the adapter's configured model in \<^verbatim>\<open>model\<close>, and whenever \<^verbatim>\<open>error\<close> is set its
  \<^verbatim>\<open>text\<close> is \<^verbatim>\<open>""\<close>.
\<close>

theorem adapter_result_invariant:
  "model (fst (adapter P w p opts)) = modelName (LLM_CONFIG P) \<and>
   (error (fst (adapter P w p opts)) \<noteq> None \<longrightarrow> text' (fst (adapter P w p opts)) = Str '''')"
proof (cases P)
  case gemini
  then show ?thesis using gemini_result [of w p opts] by simp
next
  case openai
  then show ?thesis using openai_result [of w p opts] by simp
next
  case claude
  then show ?thesis using claude_result [of w p opts] by simp
qed

theorem adapter_result_invariant_witness:
  "error (fst (getClaudeResponse example_world (Str ''x'') (Obj []))) = Some ''fetch failed'' \<and>
   model (fst (getClaudeResponse example_world (Str ''x'') (Obj []))) = ''claude-3-haiku-20240307'' \<and>
   text' (fst (getClaudeResponse example_world (Str ''x'') (Obj []))) = Str ''''"
proof -
  have e: "error (fst (getClaudeResponse example_world (Str ''x'') (Obj []))) = Some ''fetch failed''"
    by (simp add: getClaudeResponse_def getClaudeResponse_try_def claude_prompt_closed step_def
        claude_reply_def seq_def example_world_def)
  with adapter_result_invariant [of claude example_world "Str ''x''" "Obj []"] show ?thesis
    by simp
qed

text \<open>
  C5. A request with a non-empty prompt whose resolved provider is a supported identifier
  is answered with the result of the adapter of that provider; after the read of the
  default provider (if any) the trace of the request is the trace of that adapter, which
  starts with the read of that provider's credential and holds only effects of that
  provider; and the request makes at most one outbound call.
\<close>

theorem POST_dispatches_to_matching_adapter:
  assumes "get parsed ''prompt'' = Inr p" and "truthy p"
    and "fst (default_provider w (opt_prop parsed ''provider'')) = Str (provider_id P)"
  shows "POST w (Inr parsed) =
           (\<lparr>status = 200,
             payload = ResultPayload
               (fst (adapter P w p (default_options (opt_prop parsed ''options''))))\<rparr>,
            snd (default_provider w (opt_prop parsed ''provider'')) @
            snd (adapter P w p (default_options (opt_prop parsed ''options'')))) \<and>
         filter adapter_effect (snd (POST w (Inr parsed))) =
           snd (adapter P w p (default_options (opt_prop parsed ''options''))) \<and>
         hd (filter adapter_effect (snd (POST w (Inr parsed)))) = EnvRead (credential P) \<and>
         list_all (\<lambda>e. owner e = Some P) (filter adapter_effect (snd (POST w (Inr parsed)))) \<and>
         length (calls (snd (POST w (Inr parsed)))) \<le> 1"
  using POST_dispatch [OF assms]
    adapter_calls_le [of P w p "default_options (opt_prop parsed ''options'')"]
  by (simp add: default_provider_effects adapter_effects adapter_invoked adapter_owned
      calls_append default_provider_calls)

theorem POST_dispatches_to_matching_adapter_witness:
  "get (Obj [(''prompt'', Str ''Today was good''), (''provider'', Str ''gemini'')]) ''prompt'' =
     Inr (Str ''Today was good'') \<and>
   truthy (Str ''Today was good'') \<and>
   fst (default_provider example_world
     (opt_prop (Obj [(''prompt'', Str ''Today was good''), (''provider'', Str ''gemini'')]) ''provider'')) =
     Str (provider_id gemini) \<and>
   fst (POST example_world (Inr (Obj [(''prompt'', Str ''Today was good''), (''provider'', Str ''gemini'')]))) =
     \<lparr>status = 200,
      payload = ResultPayload \<lparr>text' = Str ''ok'', model = ''gemini-2.0-flash'', error = None\<rparr>\<rparr> \<and>
   list_all (\<lambda>e. owner e = Some gemini)
     (filter adapter_effect
       (snd (POST example_world
         (Inr (Obj [(''prompt'', Str ''Today was good''), (''provider'', Str ''gemini'')]))))) \<and>
   length (calls (snd (POST example_world
     (Inr (Obj [(''prompt'', Str ''Today was good''), (''provider'', Str ''gemini'')]))))) \<le> 1"
proof -
  let ?req = "Obj [(''prompt'', Str ''Today was good''), (''provider'', Str ''gemini'')]"
  have h1: "get ?req ''prompt'' = Inr (Str ''Today was good'')"
    by simp
  have h2: "truthy (Str ''Today was good'')"
    by simp
  have h3: "fst (default_provider example_world (opt_prop ?req ''provider'')) = Str (provider_id gemini)"
    by (simp add: default_provider_def opt_prop_def)
  have o: "default_options (opt_prop ?req ''options'') = Obj []"
    by (simp add: default_options_def opt_prop_def)
  have r: "fst (getGeminiResponse example_world (Str ''Today was good'') (Obj [])) =
      \<lparr>text' = Str ''ok'', model = ''gemini-2.0-flash'', error = None\<rparr>"
    by (simp add: getGeminiResponse_def getGeminiResponse_try_def step_def example_world_def)
  note c = POST_dispatches_to_matching_adapter [OF h1 h2 h3]
  from c have "fst (POST example_world (Inr ?req)) =
      \<lparr>status = 200,
       payload = ResultPayload \<lparr>text' = Str ''ok'', model = ''gemini-2.0-flash'', error = None\<rparr>\<rparr>"
    by (simp add: o r)
  moreover from c have "list_all (\<lambda>e. owner e = Some gemini)
      (filter adapter_effect (snd (POST example_world (Inr ?req))))"
    by blast
  moreover from c have "length (calls (snd (POST example_world (Inr ?req)))) \<le> 1"
    by blast
  ultimately show ?thesis
    using h1 h2 h3 by blast
qed

text \<open>
  C6. For the OpenAI and the Claude builder and every \<^verbatim>\<open>options\<close> value whose properties can
  be read: the rendered prompt is the fixed opening with the text, then the lines that
  \<^verbatim>\<open>options\<close> requests, then the fixed closing. The requested lines are, in the order of the
  table \<^verbatim>\<open>optional_lines\<close>, the line of each flag that is set and nothing for a flag that is
  unset, so what a flag contributes does not depend on the other flags. The table gives
  \<^verbatim>\<open>includeWordCloud\<close> the line \<^verbatim>\<open>6. Most frequently used words and their context\<close>,
  \<^verbatim>\<open>includeMoodDistribution\<close> the line \<^verbatim>\<open>7. Mood distribution and emotional patterns\<close>,
  \<^verbatim>\<open>includeGoals\<close> the line \<^verbatim>\<open>8. Goals mentioned and progress tracking\<close> and
  \<^verbatim>\<open>includeSocialInteractions\<close> the line \<^verbatim>\<open>9. People mentioned and relationship dynamics\<close>,
  each preceded by a line break. The four flags and the four lines are pairwise distinct;
  each line starts with a line break and holds no other, so it is exactly one line, and the
  requested lines hold as many line breaks as there are flags set: that many lines more
  than in the prompt rendered without options, which has none of them.
\<close>

theorem optional_instruction_lines:
  assumes "options \<noteq> Null" and "options \<noteq> Undefined"
  shows "formatJournalPromptForOpenAI w p options =
           Inr (openai_intro @ interpolate w p @ openai_analyses @
                requested_lines options optional_lines @ json_directive @ json_example) \<and>
         formatJournalPromptForOpenAI w p (Obj []) =
           Inr (openai_intro @ interpolate w p @ openai_analyses @ json_directive @ json_example) \<and>
         formatJournalPromptForClaude w p options =
           Inr (claude_intro @ interpolate w p @ claude_analyses @
                requested_lines options optional_lines @ json_directive @ json_example) \<and>
         formatJournalPromptForClaude w p (Obj []) =
           Inr (claude_intro @ interpolate w p @ claude_analyses @ json_directive @ json_example) \<and>
         optional_lines =
           [(''includeWordCloud'', ''\<newline>6. Most frequently used words and their context''),
            (''includeMoodDistribution'', ''\<newline>7. Mood distribution and emotional patterns''),
            (''includeGoals'', ''\<newline>8. Goals mentioned and progress tracking''),
            (''includeSocialInteractions'', ''\<newline>9. People mentioned and relationship dynamics'')] \<and>
         distinct (map fst optional_lines) \<and>
         distinct (map snd optional_lines) \<and>
         count_list (requested_lines options optional_lines) CHR ''\<newline>'' =
           flags_set options optional_lines \<and>
         list_all (\<lambda>(flag, line). hd line = CHR ''\<newline>'' \<and> count_list line CHR ''\<newline>'' = 1)
           optional_lines"
proof -
  have table: "optional_lines =
      [(''includeWordCloud'', ''\<newline>6. Most frequently used words and their context''),
       (''includeMoodDistribution'', ''\<newline>7. Mood distribution and emotional patterns''),
       (''includeGoals'', ''\<newline>8. Goals mentioned and progress tracking''),
       (''includeSocialInteractions'', ''\<newline>9. People mentioned and relationship dynamics'')]"
    by (simp add: optional_lines_def
        word_cloud_line_def mood_distribution_line_def goals_line_def social_interactions_line_def)
  have "distinct (map fst optional_lines)" and "distinct (map snd optional_lines)"
    unfolding table by simp_all
  moreover have "list_all (\<lambda>(flag, line). hd line = CHR ''\<newline>'' \<and> count_list line CHR ''\<newline>'' = 1)
      optional_lines"
    unfolding table by simp
  moreover have "formatJournalPromptForOpenAI w p (Obj []) =
      Inr (openai_intro @ interpolate w p @ openai_analyses @ json_directive @ json_example)"
    using openai_prompt_closed [of "Obj []" w p] by (simp add: requested_lines_none)
  moreover have "formatJournalPromptForClaude w p (Obj []) =
      Inr (claude_intro @ interpolate w p @ claude_analyses @ json_directive @ json_example)"
    using claude_prompt_closed [of "Obj []" w p] by (simp add: requested_lines_none)
  moreover have "formatJournalPromptForOpenAI w p options =
      Inr (openai_intro @ interpolate w p @ openai_analyses @
           requested_lines options optional_lines @ json_directive @ json_example)"
    using assms by (rule openai_prompt_closed)
  moreover have "formatJournalPromptForClaude w p options =
      Inr (claude_intro @ interpolate w p @ claude_analyses @
           requested_lines options optional_lines @ json_directive @ json_example)"
    using assms by (rule claude_prompt_closed)
  moreover note table count_requested_lines [of options]
  ultimately show ?thesis
    by blast
qed

theorem optional_instruction_lines_witness:
  "Obj [(''includeGoals'', Bool True)] \<noteq> Null \<and> Obj [(''includeGoals'', Bool True)] \<noteq> Undefined \<and>
   formatJournalPromptForClaude example_world (Str ''x'') (Obj [(''includeGoals'', Bool True)]) =
     Inr (claude_intro @ ''x'' @ claude_analyses @
          ''\<newline>8. Goals mentioned and progress tracking'' @ json_directive @ json_example) \<and>
   formatJournalPromptForClaude example_world (Str ''x'') (Obj []) =
     Inr (claude_intro @ ''x'' @ claude_analyses @ json_directive @ json_example) \<and>
   flags_set (Obj [(''includeGoals'', Bool True)]) optional_lines = 1"
proof -
  note c = optional_instruction_lines [of "Obj [(''includeGoals'', Bool True)]" example_world "Str ''x''"]
  from c have table: "optional_lines =
      [(''includeWordCloud'', ''\<newline>6. Most frequently used words and their context''),
       (''includeMoodDistribution'', ''\<newline>7. Mood distribution and emotional patterns''),
       (''includeGoals'', ''\<newline>8. Goals mentioned and progress tracking''),
       (''includeSocialInteractions'', ''\<newline>9. People mentioned and relationship dynamics'')]"
    by blast
  have r: "requested_lines (Obj [(''includeGoals'', Bool True)]) optional_lines =
      ''\<newline>8. Goals mentioned and progress tracking''"
    unfolding table by (simp add: opt_prop_def)
  have f: "flags_set (Obj [(''includeGoals'', Bool True)]) optional_lines = 1"
    unfolding table by (simp add: opt_prop_def)
  from c have "formatJournalPromptForClaude example_world (Str ''x'') (Obj [(''includeGoals'', Bool True)]) =
      Inr (claude_intro @ interpolate example_world (Str ''x'') @ claude_analyses @
           requested_lines (Obj [(''includeGoals'', Bool True)]) optional_lines @
           json_directive @ json_example)"
    and "formatJournalPromptForClaude example_world (Str ''x'') (Obj []) =
      Inr (claude_intro @ interpolate example_world (Str ''x'') @ claude_analyses @
           json_directive @ json_example)"
    by blast+
  then show ?thesis
    using f by (simp add: r)
qed

text \<open>
  C7, as stated, fails for the Gemini builder: its prompt does not end with the example of
  the JSON shape. The example is followed by the closing directive, not the directive by
  the example.
\<close>

theorem gemini_prompt_ends_with_directive:
  "suffix (gemini_json_shape @ gemini_closing)
     (formatJournalPromptForGemini example_world (Str ''x'') (Obj [])) \<and>
   gemini_closing = ''\<newline>Return ONLY valid JSON.\<newline>'' \<and>
   \<not> suffix gemini_json_shape (formatJournalPromptForGemini example_world (Str ''x'') (Obj []))"
proof -
  have "suffix (gemini_json_shape @ gemini_closing)
      (formatJournalPromptForGemini example_world (Str ''x'') (Obj []))"
    unfolding formatJournalPromptForGemini_def by (rule suffix_after4)
  moreover have "gemini_closing = ''\<newline>Return ONLY valid JSON.\<newline>''"
    by (simp add: gemini_closing_def)
  moreover have "\<not> suffix gemini_json_shape
      (formatJournalPromptForGemini example_world (Str ''x'') (Obj []))"
    unfolding formatJournalPromptForGemini_def
    using gemini_prompt_not_ending_with_shape
      [of "gemini_intro @ interpolate example_world (Str ''x'') @ gemini_analyses @ gemini_format_directive"]
    by simp
  ultimately show ?thesis
    by blast
qed

text \<open>
  C7, amended. Whatever the text and the options, the Gemini prompt ends with the line
  \<^verbatim>\<open>Format your response as JSON with the following structure:\<close>, the literal example of
  the JSON shape, and then the closing directive \<^verbatim>\<open>Return ONLY valid JSON.\<close> and a line
  break. For every \<^verbatim>\<open>options\<close> value whose properties can be read, the OpenAI and the Claude
  builder return a prompt, and it ends with the closing directive
  \<^verbatim>\<open>Return ONLY a valid JSON object with the following structure:\<close> followed by the literal
  example of the JSON shape.
\<close>

theorem prompts_end_with_json_directive:
  "suffix (gemini_format_directive @ gemini_json_shape @ gemini_closing)
     (formatJournalPromptForGemini w p options) \<and>
   gemini_format_directive = ''Format your response as JSON with the following structure:\<newline>'' \<and>
   gemini_closing = ''\<newline>Return ONLY valid JSON.\<newline>'' \<and>
   json_directive =
     ''\<newline>\<newline>Return ONLY a valid JSON object with the following structure:\<newline>'' \<and>
   (options \<noteq> Null \<and> options \<noteq> Undefined \<longrightarrow>
     (\<exists>s. formatJournalPromptForOpenAI w p options = Inr s \<and> suffix (json_directive @ json_example) s) \<and>
     (\<exists>s. formatJournalPromptForClaude w p options = Inr s \<and> suffix (json_directive @ json_example) s))"
proof -
  have "suffix (gemini_format_directive @ gemini_json_shape @ gemini_closing)
      (formatJournalPromptForGemini w p options)"
    unfolding formatJournalPromptForGemini_def by (rule suffix_after3)
  moreover have "gemini_format_directive =
      ''Format your response as JSON with the following structure:\<newline>''"
    by (simp add: gemini_format_directive_def)
  moreover have "gemini_closing = ''\<newline>Return ONLY valid JSON.\<newline>''"
    by (simp add: gemini_closing_def)
  moreover have "json_directive =
      ''\<newline>\<newline>Return ONLY a valid JSON object with the following structure:\<newline>''"
    by (simp add: json_directive_def)
  moreover have "\<exists>s. formatJournalPromptForOpenAI w p options = Inr s \<and>
      suffix (json_directive @ json_example) s"
    if "options \<noteq> Null" "options \<noteq> Undefined"
    unfolding openai_prompt_closed [OF that] using suffix_after4 by blast
  moreover have "\<exists>s. formatJournalPromptForClaude w p options = Inr s \<and>
      suffix (json_directive @ json_example) s"
    if "options \<noteq> Null" "options \<noteq> Undefined"
    unfolding claude_prompt_closed [OF that] using suffix_after4 by blast
  ultimately show ?thesis
    by blast
qed

theorem prompts_end_with_json_directive_witness:
  "Obj [] \<noteq> Null \<and> Obj [] \<noteq> Undefined \<and>
   formatJournalPromptForOpenAI example_world (Str ''x'') (Obj []) =
     Inr (openai_intro @ ''x'' @ openai_analyses @ json_directive @ json_example) \<and>
   (\<exists>s. formatJournalPromptForOpenAI example_world (Str ''x'') (Obj []) = Inr s \<and>
        suffix (json_directive @ json_example) s) \<and>
   (\<exists>s. formatJournalPromptForClaude example_world (Str ''x'') (Obj []) = Inr s \<and>
        suffix (json_directive @ json_example) s)"
  using prompts_end_with_json_directive [of example_world "Str ''x''" "Obj []"]
    openai_prompt_closed [of "Obj []" example_world "Str ''x''"]
  by (simp add: requested_lines_none)

text \<open>
  C8, as stated, fails: with no \<^verbatim>\<open>temperature\<close> in the options the request of the OpenAI
  adapter carries a temperature chosen by the gateway, 0.7.
\<close>

theorem absent_temperature_sent_as_default:
  "opt_prop (Obj []) ''temperature'' = Undefined \<and>
   sent ''temperature'' (snd (getOpenAIResponse example_world (Str ''x'') (Obj []))) =
     [Num (Finite 0.7)]"
proof -
  have "env example_world ''OPENAI_API_KEY'' = Some ''o-key''"
    by (simp add: example_world_def)
  then have "sent ''temperature'' (snd (getOpenAIResponse example_world (Str ''x'') (Obj []))) =
      [JSON_stringify (or_else (opt_prop (Obj []) ''temperature'') (Num (Finite 0.7)))]"
    by (simp add: openai_call opt_prop_def)
  then show ?thesis
    by (simp add: opt_prop_def or_else_def)
qed

text \<open>
  C8, amended. For a request to the OpenAI or the Claude adapter with the credential
  configured and \<^verbatim>\<open>options\<close> readable, the adapter sends one request; when
  \<^verbatim>\<open>options.temperature\<close> is absent its body carries the gateway's own default temperature
  0.7, and when \<^verbatim>\<open>options.temperature\<close> is a finite number other than zero its body carries
  exactly that number. (Nothing is said of a temperature of zero, nor of what the Gemini
  client sends.)
\<close>

theorem temperature_sent:
  assumes "P = openai \<or> P = claude"
    and "env w (credential P) = Some key" and "key \<noteq> []"
    and "opts \<noteq> Null" and "opts \<noteq> Undefined"
  shows "(opt_prop opts ''temperature'' = Undefined \<longrightarrow>
            sent ''temperature'' (snd (adapter P w p opts)) = [Num (Finite 0.7)]) \<and>
         (opt_prop opts ''temperature'' = Num (Finite r) \<and> r \<noteq> 0 \<longrightarrow>
            sent ''temperature'' (snd (adapter P w p opts)) = [Num (Finite r)])"
  using fetch_sent_temperature [OF assms, of p] by (auto simp add: or_else_def)

theorem temperature_sent_witness:
  "env example_world (credential claude) = Some ''a-key'' \<and>
   opt_prop (Obj []) ''temperature'' = Undefined \<and>
   sent ''temperature'' (snd (adapter claude example_world (Str ''x'') (Obj []))) =
     [Num (Finite 0.7)] \<and>
   opt_prop (Obj [(''temperature'', Num (Finite 0.2))]) ''temperature'' = Num (Finite 0.2) \<and>
   sent ''temperature''
     (snd (adapter claude example_world (Str ''x'') (Obj [(''temperature'', Num (Finite 0.2))]))) =
     [Num (Finite 0.2)]"
proof -
  have k: "env example_world (credential claude) = Some ''a-key''"
    by (simp add: example_world_def)
  have c: "claude = openai \<or> claude = claude"
    by simp
  have a: "opt_prop (Obj []) ''temperature'' = Undefined"
    by (simp add: opt_prop_def)
  have t: "opt_prop (Obj [(''temperature'', Num (Finite 0.2))]) ''temperature'' = Num (Finite 0.2)"
    by (simp add: opt_prop_def)
  from temperature_sent [OF c k, where opts = "Obj []" and p = "Str ''x''"] a
  have "sent ''temperature'' (snd (adapter claude example_world (Str ''x'') (Obj []))) =
      [Num (Finite 0.7)]"
    by simp
  moreover from temperature_sent
      [OF c k, where opts = "Obj [(''temperature'', Num (Finite 0.2))]" and r = "0.2" and p = "Str ''x''"] t
  have "sent ''temperature''
      (snd (adapter claude example_world (Str ''x'') (Obj [(''temperature'', Num (Finite 0.2))]))) =
      [Num (Finite 0.2)]"
    by simp
  ultimately show ?thesis
    using k a t by blast
qed

text \<open>
  C9, as stated, fails for the Claude adapter: the body of its request carries no top-p
  (and no top-k), also when the options give one.
\<close>

theorem claude_call_has_no_top_p:
  "sent ''top_p''
     (snd (getClaudeResponse example_world (Str ''x'') (Obj [(''topP'', Num (Finite 0.5))]))) =
     [Undefined] \<and>
   sent ''topP''
     (snd (getClaudeResponse example_world (Str ''x'') (Obj [(''topP'', Num (Finite 0.5))]))) =
     [Undefined] \<and>
   sent ''top_k''
     (snd (getClaudeResponse example_world (Str ''x'') (Obj [(''topP'', Num (Finite 0.5))]))) =
     [Undefined] \<and>
   sent ''temperature''
     (snd (getClaudeResponse example_world (Str ''x'') (Obj [(''topP'', Num (Finite 0.5))]))) =
     [Num (Finite 0.7)]"
proof -
  have "env example_world ''ANTHROPIC_API_KEY'' = Some ''a-key''"
    by (simp add: example_world_def)
  then show ?thesis
    by (simp add: claude_call opt_prop_def or_else_def)
qed

text \<open>
  C9, amended. With the credential configured and \<^verbatim>\<open>options\<close> readable, each adapter makes
  exactly one outbound call, and the call includes the rendered prompt. The body of the
  OpenAI request carries, beside the prompt, the token budget 4096, the temperature and
  top-p; the body of the Claude request the token budget 4096 and the temperature, and no
  other member (neither top-p nor top-k). Each sampling parameter is the option's value
  when that is truthy and otherwise the default (0.7, 0.95), as \<^verbatim>\<open>JSON.stringify\<close> writes
  it. Of the Gemini call the statement is that the argument of the client names the
  configured model and holds the rendered prompt as its contents; nothing is said of
  the token budget and the sampling parameters of the Gemini request.
\<close>

theorem outbound_call_contents:
  assumes "opts \<noteq> Null" and "opts \<noteq> Undefined"
  shows "(env w ''GEMINI_API_KEY'' = Some kg \<and> kg \<noteq> [] \<longrightarrow>
            (\<exists>params. calls (snd (getGeminiResponse w p opts)) = [GenerateContent kg params] \<and>
              opt_prop params ''model'' = Str ''gemini-2.0-flash'' \<and>
              opt_prop params ''contents'' = Str (formatJournalPromptForGemini w p opts))) \<and>
         (env w ''OPENAI_API_KEY'' = Some ko \<and> ko \<noteq> [] \<longrightarrow>
            (\<exists>rendered. formatJournalPromptForOpenAI w p opts = Inr rendered \<and>
              calls (snd (getOpenAIResponse w p opts)) =
                [Fetch ''https://api.openai.com/v1/chat/completions'' ''POST''
                  [(''Content-Type'', ''application/json''), (''Authorization'', ''Bearer '' @ ko)]
                  (Obj
                    [(''model'', Str ''gpt-3.5-turbo''),
                     (''messages'', Arr
                        [Obj [(''role'', Str ''system''),
                              (''content'', Str ''You are a professional journal analyzer providing insights and analysis.'')],
                         Obj [(''role'', Str ''user''), (''content'', Str rendered)]]),
                     (''max_tokens'', Num (Finite 4096)),
                     (''temperature'',
                        JSON_stringify (or_else (opt_prop opts ''temperature'') (Num (Finite 0.7)))),
                     (''top_p'',
                        JSON_stringify (or_else (opt_prop opts ''topP'') (Num (Finite 0.95))))])])) \<and>
         (env w ''ANTHROPIC_API_KEY'' = Some ka \<and> ka \<noteq> [] \<longrightarrow>
            (\<exists>rendered. formatJournalPromptForClaude w p opts = Inr rendered \<and>
              calls (snd (getClaudeResponse w p opts)) =
                [Fetch ''https://api.anthropic.com/v1/messages'' ''POST''
                  [(''Content-Type'', ''application/json''), (''x-api-key'', ka),
                   (''anthropic-version'', ''2023-06-01'')]
                  (Obj
                    [(''model'', Str ''claude-3-haiku-20240307''),
                     (''messages'', Arr
                        [Obj [(''role'', Str ''user''), (''content'', Str rendered)]]),
                     (''max_tokens'', Num (Finite 4096)),
                     (''temperature'',
                        JSON_stringify (or_else (opt_prop opts ''temperature'') (Num (Finite 0.7))))])]))"
  using assms
  by (simp add: gemini_call openai_call claude_call openai_prompt_closed claude_prompt_closed
      opt_prop_def)

theorem outbound_call_contents_witness:
  "Obj [(''topP'', Num (Finite 0.5))] \<noteq> Null \<and> Obj [(''topP'', Num (Finite 0.5))] \<noteq> Undefined \<and>
   env example_world ''GEMINI_API_KEY'' = Some ''g-key'' \<and>
   env example_world ''OPENAI_API_KEY'' = Some ''o-key'' \<and>
   env example_world ''ANTHROPIC_API_KEY'' = Some ''a-key'' \<and>
   (\<exists>params. calls (snd (getGeminiResponse example_world (Str ''x'') (Obj [(''topP'', Num (Finite 0.5))]))) =
        [GenerateContent ''g-key'' params] \<and>
      opt_prop params ''contents'' =
        Str (formatJournalPromptForGemini example_world (Str ''x'') (Obj [(''topP'', Num (Finite 0.5))]))) \<and>
   sent ''max_tokens''
     (snd (getOpenAIResponse example_world (Str ''x'') (Obj [(''topP'', Num (Finite 0.5))]))) =
     [Num (Finite 4096)] \<and>
   sent ''top_p''
     (snd (getOpenAIResponse example_world (Str ''x'') (Obj [(''topP'', Num (Finite 0.5))]))) =
     [Num (Finite 0.5)] \<and>
   sent ''max_tokens''
     (snd (getClaudeResponse example_world (Str ''x'') (Obj [(''topP'', Num (Finite 0.5))]))) =
     [Num (Finite 4096)]"
proof -
  let ?o = "Obj [(''topP'', Num (Finite 0.5))]"
  have e: "env example_world ''GEMINI_API_KEY'' = Some ''g-key''"
    "env example_world ''OPENAI_API_KEY'' = Some ''o-key''"
    "env example_world ''ANTHROPIC_API_KEY'' = Some ''a-key''"
    by (simp_all add: example_world_def)
  have s: "snd (getOpenAIResponse example_world (Str ''x'') ?o) =
        EnvRead ''OPENAI_API_KEY'' # map Call (calls (snd (getOpenAIResponse example_world (Str ''x'') ?o)))"
    "snd (getClaudeResponse example_world (Str ''x'') ?o) =
        EnvRead ''ANTHROPIC_API_KEY'' # map Call (calls (snd (getClaudeResponse example_world (Str ''x'') ?o)))"
    using e by (simp_all add: openai_call claude_call)
  note c = outbound_call_contents
    [where opts = ?o and w = example_world and p = "Str ''x''"
       and kg = "''g-key''" and ko = "''o-key''" and ka = "''a-key''"]
  from c e have "\<exists>params. calls (snd (getGeminiResponse example_world (Str ''x'') ?o)) =
        [GenerateContent ''g-key'' params] \<and>
      opt_prop params ''contents'' = Str (formatJournalPromptForGemini example_world (Str ''x'') ?o)"
    by auto
  moreover from c e
  have "sent ''max_tokens'' (snd (getOpenAIResponse example_world (Str ''x'') ?o)) = [Num (Finite 4096)]"
    by (subst s) (auto simp add: opt_prop_def or_else_def)
  moreover from c e
  have "sent ''top_p'' (snd (getOpenAIResponse example_world (Str ''x'') ?o)) = [Num (Finite 0.5)]"
    by (subst s) (auto simp add: opt_prop_def or_else_def)
  moreover from c e
  have "sent ''max_tokens'' (snd (getClaudeResponse example_world (Str ''x'') ?o)) = [Num (Finite 4096)]"
    by (subst s) (auto simp add: opt_prop_def or_else_def)
  ultimately show ?thesis
    using e by simp
qed

end
